theory Spec2Isabelle
  imports Complex_Main
begin

section \<open>Game statistics of hanabi-live: pace, clues still usable, cards gotten, double discard\<close>

text \<open>
  A shallow embedding of \<^verbatim>\<open>packages/client/src/game/rules/stats.ts\<close>.
  The counts the functions work on (scores, deck sizes, numbers of players, card orders)
  are whole numbers and are modelled as \<open>int\<close> or \<open>nat\<close>; the clue values, which are
  fractional in some variants, are modelled as \<open>rat\<close>. A result \<^verbatim>\<open>number | null\<close> is an
  \<open>option\<close>, \<^verbatim>\<open>null\<close> being \<open>None\<close>; a \<^verbatim>\<open>throw\<close> is the left summand of a sum.
\<close>

subsection \<open>Pace\<close>

definition getPace :: "int \<Rightarrow> int \<Rightarrow> int \<Rightarrow> int \<Rightarrow> bool \<Rightarrow> int option" where
  "getPace score deckSize maxScore endGameLength gameOver =
     (if gameOver then None
      else if deckSize \<le> 0 then None
      else (let adjustedScorePlusDeck = score + deckSize - maxScore
            in Some (adjustedScorePlusDeck + endGameLength)))"

datatype PaceRisk = Low | Medium | High | Zero

definition getPaceRisk :: "int option \<Rightarrow> int \<Rightarrow> PaceRisk" where
  "getPaceRisk currentPace numPlayers =
     (case currentPace of
        None \<Rightarrow> Low
      | Some pace \<Rightarrow>
          if pace \<le> 0 then Zero
          else if pace - numPlayers + numPlayers div 2 < 0 then High
          else if pace - numPlayers < 0 then Medium
          else Low)"

text \<open>The order on risks that the monotonicity property speaks of: Low, Medium, High, Zero.\<close>

fun riskLevel :: "PaceRisk \<Rightarrow> nat" where
  "riskLevel Low = 0"
| "riskLevel Medium = 1"
| "riskLevel High = 2"
| "riskLevel Zero = 3"

text \<open>The set of integer paces that \<open>getPaceRisk\<close> sends to a given risk, for \<open>n\<close> players.\<close>

definition paceBucket :: "int \<Rightarrow> PaceRisk \<Rightarrow> int set" where
  "paceBucket n r = {pace. getPaceRisk (Some pace) n = r}"

subsection \<open>Clues still usable\<close>

definition getMaxDiscardsBeforeFinalRound :: "int \<Rightarrow> int \<Rightarrow> int \<Rightarrow> int" where
  "getMaxDiscardsBeforeFinalRound cardsToPlay deckSize endGameLength =
     (if cardsToPlay \<le> endGameLength + 1 then deckSize - 1
      else if cardsToPlay \<le> endGameLength + deckSize then endGameLength + deckSize - cardsToPlay
      else 0)"

definition getMaxPlaysDuringFinalRound :: "int \<Rightarrow> int \<Rightarrow> int" where
  "getMaxPlaysDuringFinalRound cardsToPlay endGameLength =
     (if cardsToPlay < endGameLength + 1 then cardsToPlay else endGameLength + 1)"

definition getMaxPlays :: "int \<Rightarrow> int \<Rightarrow> int \<Rightarrow> int" where
  "getMaxPlays cardsToPlay deckSize endGameLength =
     (if cardsToPlay \<le> endGameLength + deckSize then cardsToPlay
      else endGameLength + deckSize)"

text \<open>A thrown \<^verbatim>\<open>Error\<close>, with its message.\<close>

datatype error = Error string

text \<open>
  The first loop of \<^verbatim>\<open>getCluesStillUsableNotRounded\<close>: it walks \<^verbatim>\<open>scorePerStack\<close> with
  the index \<open>suitIndex\<close>, reads \<^verbatim>\<open>maxScorePerStack[suitIndex]\<close> (\<^verbatim>\<open>undefined\<close> out of
  range, which is not equal to \<open>stackSize\<close>) and pushes the missing cards of each suit that
  can still be completed.
\<close>

fun missingCardsPerCompletableSuit :: "nat \<Rightarrow> int list \<Rightarrow> int list \<Rightarrow> int \<Rightarrow> int list" where
  "missingCardsPerCompletableSuit suitIndex [] maxScorePerStack stackSize = []"
| "missingCardsPerCompletableSuit suitIndex (stackScore # rest) maxScorePerStack stackSize =
     (if suitIndex < length maxScorePerStack
         \<and> maxScorePerStack ! suitIndex = stackSize \<and> stackScore < stackSize
      then (maxScorePerStack ! suitIndex - stackScore)
             # missingCardsPerCompletableSuit (Suc suitIndex) rest maxScorePerStack stackSize
      else missingCardsPerCompletableSuit (Suc suitIndex) rest maxScorePerStack stackSize)"

text \<open>
  The second loop: it runs over the sorted missing cards with the counters \<open>cardsPlayed\<close> and
  \<open>suitsCompletedBeforeFinalRound\<close>, and breaks at the first suit that does not fit.
\<close>

fun suitsCompletedBeforeFinalRound :: "int \<Rightarrow> int \<Rightarrow> nat \<Rightarrow> int list \<Rightarrow> nat" where
  "suitsCompletedBeforeFinalRound minPlaysBeforeFinalRound cardsPlayed suitsCompleted [] =
     suitsCompleted"
| "suitsCompletedBeforeFinalRound minPlaysBeforeFinalRound cardsPlayed suitsCompleted
       (missingCardsInSuit # rest) =
     (if cardsPlayed + missingCardsInSuit > minPlaysBeforeFinalRound then suitsCompleted
      else suitsCompletedBeforeFinalRound minPlaysBeforeFinalRound
             (cardsPlayed + missingCardsInSuit) (Suc suitsCompleted) rest)"

definition getCluesStillUsableNotRounded ::
  "int \<Rightarrow> int list \<Rightarrow> int list \<Rightarrow> int \<Rightarrow> int \<Rightarrow> int \<Rightarrow> rat \<Rightarrow> rat \<Rightarrow> rat \<Rightarrow> error + rat option" where
  "getCluesStillUsableNotRounded score scorePerStack maxScorePerStack stackSize deckSize
       endGameLength discardValue suitValue currentClues =
     (if length scorePerStack \<noteq> length maxScorePerStack then
        Inl (Error ''Failed to calculate efficiency: scorePerStack must have the same length as maxScorePerStack.'')
      else if discardValue < suitValue then
        Inl (Error ''Cannot calculate efficiency in variants where discarding gives fewer clues than completing suits.'')
      else if deckSize \<le> 0 then Inr None
      else
        (let maxScore = sum_list maxScorePerStack;
             missingScore = maxScore - score;
             maxDiscardsBeforeFinalRound =
               getMaxDiscardsBeforeFinalRound missingScore deckSize endGameLength;
             cluesFromDiscards = of_int maxDiscardsBeforeFinalRound * discardValue;
             cluesFromSuits =
               (if suitValue > 0 then
                  (let playsDuringFinalRound =
                         getMaxPlaysDuringFinalRound missingScore endGameLength;
                       minPlaysBeforeFinalRound =
                         getMaxPlays missingScore deckSize endGameLength - playsDuringFinalRound;
                       missingCards =
                         sort (missingCardsPerCompletableSuit 0 scorePerStack
                                 maxScorePerStack stackSize)
                   in of_nat (suitsCompletedBeforeFinalRound minPlaysBeforeFinalRound 0 0
                                missingCards) * suitValue)
                else 0)
         in Inr (Some (cluesFromDiscards + cluesFromSuits + currentClues))))"

text \<open>
  The description of the suit term in words, to compare the code with. The candidates are
  the suits whose maximum score is the stack size and whose score is below it, each with
  the cards it still needs.
\<close>

definition completableCandidates_spec :: "int list \<Rightarrow> int list \<Rightarrow> int \<Rightarrow> int list" where
  "completableCandidates_spec scorePerStack maxScorePerStack stackSize =
     map (\<lambda>(stackScore, stackMaxScore). stackMaxScore - stackScore)
       (filter (\<lambda>(stackScore, stackMaxScore). stackMaxScore = stackSize \<and> stackScore < stackSize)
          (zip scorePerStack maxScorePerStack))"

text \<open>
  Greedy packing: the number of leading candidates that can be taken, one after the other,
  while the cards taken so far stay within the budget.
\<close>

definition greedyPacked_spec :: "int \<Rightarrow> int list \<Rightarrow> nat" where
  "greedyPacked_spec budget candidates =
     length (takeWhile (\<lambda>k. sum_list (take k candidates) \<le> budget)
               [1..<Suc (length candidates)])"

text \<open>The play budget before the final round, as the code computes it.\<close>

definition playBudgetBeforeFinalRound :: "int \<Rightarrow> int \<Rightarrow> int \<Rightarrow> int" where
  "playBudgetBeforeFinalRound missingScore deckSize endGameLength =
     getMaxPlays missingScore deckSize endGameLength
       - getMaxPlaysDuringFinalRound missingScore endGameLength"

text \<open>
  The value the description gives: discards times the discard value, plus the suit value
  times the suits greedily packed, plus the current clues, whatever the suit value is.
\<close>

definition cluesStillUsable_described ::
  "int \<Rightarrow> int list \<Rightarrow> int list \<Rightarrow> int \<Rightarrow> int \<Rightarrow> int \<Rightarrow> rat \<Rightarrow> rat \<Rightarrow> rat \<Rightarrow> rat" where
  "cluesStillUsable_described score scorePerStack maxScorePerStack stackSize deckSize
       endGameLength discardValue suitValue currentClues =
     (let missingScore = sum_list maxScorePerStack - score
      in of_int (getMaxDiscardsBeforeFinalRound missingScore deckSize endGameLength) * discardValue
         + suitValue
             * of_nat (greedyPacked_spec
                         (playBudgetBeforeFinalRound missingScore deckSize endGameLength)
                         (sort (completableCandidates_spec scorePerStack maxScorePerStack
                                  stackSize)))
         + currentClues)"

subsection \<open>Cards, notes and variant\<close>

text \<open>
  The declarations of \<^verbatim>\<open>CardState\<close>, \<^verbatim>\<open>CardNote\<close>, \<^verbatim>\<open>GameState\<close> and \<^verbatim>\<open>Variant\<close> are in
  other packages. The records below have the fields that \<^verbatim>\<open>stats.ts\<close> reads, with the
  types it reads them at. Whatever else a card carries (its clue history) is the extension
  of the record, so every function works on \<open>'m CardState_scheme\<close>. The types of the play
  stacks, of their directions and of their starts are type variables: \<^verbatim>\<open>stats.ts\<close> only
  hands them on.
\<close>

datatype CardLocation = InHand nat | PlayStack | Discard | Deck

record CardState =
  order :: nat
  location :: CardLocation
  suitIndex :: "nat option"
  rank :: "int option"
  possibleCardsFromClues :: "(nat \<times> int) list"
  isMisplayed :: bool

record CardNote =
  clued :: bool
  finessed :: bool
  unclued :: bool
  knownTrash :: bool

record 'suit Variant =
  suits :: "'suit list"
  throwItInAHole :: bool

text \<open>Reading an array at an index: \<^verbatim>\<open>undefined\<close>, here \<open>None\<close>, out of range.\<close>

definition arrayGet :: "'a list \<Rightarrow> nat \<Rightarrow> 'a option" where
  "arrayGet xs i = (if i < length xs then Some (xs ! i) else None)"

text \<open>
  Modelled from the spec: \<^verbatim>\<open>isCardInPlayerHand\<close> of the game package, which is not among the
  sources. A card's location is a player's hand index, the play stack, the discard pile or
  the deck, and the card is in a player's hand when its location is a hand index;
  \<^verbatim>\<open>getDoubleDiscardCard\<close> writes the same test out as
  \<^verbatim>\<open>typeof cardInDeck.location === "number"\<close>.
\<close>

definition isCardInPlayerHand :: "'m CardState_scheme \<Rightarrow> bool" where
  "isCardInPlayerHand cardState =
     (case location cardState of InHand playerIndex \<Rightarrow> True | _ \<Rightarrow> False)"

subsection \<open>Cards gotten\<close>

text \<open>
  The functions \<^verbatim>\<open>isCardClued\<close>, \<^verbatim>\<open>isHandLocked\<close>, \<^verbatim>\<open>isAllCardPossibilitiesTrash\<close>,
  \<^verbatim>\<open>isCardNeedsToBePlayed\<close>, \<^verbatim>\<open>getNumCopiesOfCard\<close> and \<^verbatim>\<open>getNumDiscardedCopiesOfCard\<close>
  are imported from other modules; they are parameters of the functions that call them,
  under their own names, and come first in the argument list.
\<close>

text \<open>The loop of \<^verbatim>\<open>getCardsGotten\<close> over the deck, with the counter \<open>currentCardsGotten\<close>.\<close>

fun getCardsGotten_loop ::
  "('m CardState_scheme \<Rightarrow> bool) \<Rightarrow>
   ('m CardState_scheme \<Rightarrow> 'm CardState_scheme list \<Rightarrow> 'stacks \<Rightarrow> 'directions \<Rightarrow> 'starts
      \<Rightarrow> 'suit Variant \<Rightarrow> bool \<Rightarrow> bool) \<Rightarrow>
   'm CardState_scheme list \<Rightarrow> 'stacks \<Rightarrow> 'directions \<Rightarrow> 'starts \<Rightarrow> bool \<Rightarrow> bool
      \<Rightarrow> 'suit Variant \<Rightarrow> 'm CardState_scheme list \<Rightarrow> int \<Rightarrow> int" where
  "getCardsGotten_loop isCardClued isAllCardPossibilitiesTrash deck playStacks
       playStackDirections playStackStarts playing shadowing variant [] currentCardsGotten =
     currentCardsGotten"
| "getCardsGotten_loop isCardClued isAllCardPossibilitiesTrash deck playStacks
       playStackDirections playStackStarts playing shadowing variant (cardState # rest)
       currentCardsGotten =
     (if location cardState = PlayStack
         \<or> (location cardState = Discard \<and> isMisplayed cardState \<and> throwItInAHole variant
              \<and> (playing \<or> shadowing))
      then getCardsGotten_loop isCardClued isAllCardPossibilitiesTrash deck playStacks
             playStackDirections playStackStarts playing shadowing variant rest
             (currentCardsGotten + 1)
      else if isCardInPlayerHand cardState \<and> isCardClued cardState
              \<and> \<not> isAllCardPossibilitiesTrash cardState deck playStacks playStackDirections
                    playStackStarts variant False
      then getCardsGotten_loop isCardClued isAllCardPossibilitiesTrash deck playStacks
             playStackDirections playStackStarts playing shadowing variant rest
             (currentCardsGotten + 1)
      else getCardsGotten_loop isCardClued isAllCardPossibilitiesTrash deck playStacks
             playStackDirections playStackStarts playing shadowing variant rest
             currentCardsGotten)"

definition getCardsGotten ::
  "('m CardState_scheme \<Rightarrow> bool) \<Rightarrow>
   ('m CardState_scheme \<Rightarrow> 'm CardState_scheme list \<Rightarrow> 'stacks \<Rightarrow> 'directions \<Rightarrow> 'starts
      \<Rightarrow> 'suit Variant \<Rightarrow> bool \<Rightarrow> bool) \<Rightarrow>
   'm CardState_scheme list \<Rightarrow> 'stacks \<Rightarrow> 'directions \<Rightarrow> 'starts \<Rightarrow> bool \<Rightarrow> bool
      \<Rightarrow> int \<Rightarrow> 'suit Variant \<Rightarrow> int" where
  "getCardsGotten isCardClued isAllCardPossibilitiesTrash deck playStacks playStackDirections
       playStackStarts playing shadowing maxScore variant =
     (let currentCardsGotten =
            getCardsGotten_loop isCardClued isAllCardPossibilitiesTrash deck playStacks
              playStackDirections playStackStarts playing shadowing variant deck 0
      in if currentCardsGotten > maxScore then maxScore else currentCardsGotten)"

text \<open>
  The three counts of the description: the cards on the play stacks, the misplayed cards in
  the discard pile, and the cards in a player's hand that are clued and whose possibilities
  are not all trash (\<open>allTrash\<close> stands for \<^verbatim>\<open>isAllCardPossibilitiesTrash\<close> with the game's
  arguments filled in).
\<close>

definition cardsOnPlayStacks :: "'m CardState_scheme list \<Rightarrow> int" where
  "cardsOnPlayStacks deck = int (length (filter (\<lambda>c. location c = PlayStack) deck))"

definition misplayedDiscards :: "'m CardState_scheme list \<Rightarrow> int" where
  "misplayedDiscards deck =
     int (length (filter (\<lambda>c. location c = Discard \<and> isMisplayed c) deck))"

definition cluedLiveHandCards ::
  "('m CardState_scheme \<Rightarrow> bool) \<Rightarrow> ('m CardState_scheme \<Rightarrow> bool) \<Rightarrow> 'm CardState_scheme list
     \<Rightarrow> int" where
  "cluedLiveHandCards isCardClued allTrash deck =
     int (length (filter (\<lambda>c. isCardInPlayerHand c \<and> isCardClued c \<and> \<not> allTrash c) deck))"

subsection \<open>Cards gotten by notes\<close>

definition getCardsGottenByNotesAdjustment ::
  "('m CardState_scheme \<Rightarrow> bool) \<Rightarrow> CardNote list \<Rightarrow> nat \<Rightarrow> 'm CardState_scheme \<Rightarrow> int" where
  "getCardsGottenByNotesAdjustment isCardClued notes cardOrder cardState =
     (case arrayGet notes cardOrder of
        None \<Rightarrow> 0
      | Some note \<Rightarrow>
          (let isCluedForReal = isCardClued cardState
           in if isCluedForReal \<and> (unclued note \<or> knownTrash note) then - 1
              else if isCluedForReal then 0
              else (let isCluedByNotes =
                          (clued note \<or> finessed note) \<and> \<not> unclued note \<and> \<not> knownTrash note
                    in if isCluedByNotes then 1 else 0)))"

text \<open>
  The loop of \<^verbatim>\<open>getCardsGottenByNotes\<close> over \<^verbatim>\<open>deck.entries()\<close>, with the index \<open>i\<close> and
  the counter \<open>numCardsGottenByNotes\<close>.
\<close>

fun getCardsGottenByNotes_loop ::
  "('m CardState_scheme \<Rightarrow> bool) \<Rightarrow>
   ('m CardState_scheme \<Rightarrow> 'm CardState_scheme list \<Rightarrow> 'stacks \<Rightarrow> 'directions \<Rightarrow> 'starts
      \<Rightarrow> 'suit Variant \<Rightarrow> bool \<Rightarrow> bool) \<Rightarrow>
   'm CardState_scheme list \<Rightarrow> 'stacks \<Rightarrow> 'directions \<Rightarrow> 'starts \<Rightarrow> 'suit Variant
      \<Rightarrow> CardNote list \<Rightarrow> nat \<Rightarrow> 'm CardState_scheme list \<Rightarrow> int \<Rightarrow> int" where
  "getCardsGottenByNotes_loop isCardClued isAllCardPossibilitiesTrash deck playStacks
       playStackDirections playStackStarts variant notes i [] numCardsGottenByNotes =
     numCardsGottenByNotes"
| "getCardsGottenByNotes_loop isCardClued isAllCardPossibilitiesTrash deck playStacks
       playStackDirections playStackStarts variant notes i (cardState # rest)
       numCardsGottenByNotes =
     (if isCardInPlayerHand cardState
         \<and> \<not> isAllCardPossibilitiesTrash cardState deck playStacks playStackDirections
               playStackStarts variant False
      then (let adjustmentFromThisCard =
                  getCardsGottenByNotesAdjustment isCardClued notes i cardState
            in getCardsGottenByNotes_loop isCardClued isAllCardPossibilitiesTrash deck playStacks
                 playStackDirections playStackStarts variant notes (Suc i) rest
                 (numCardsGottenByNotes + adjustmentFromThisCard))
      else getCardsGottenByNotes_loop isCardClued isAllCardPossibilitiesTrash deck playStacks
             playStackDirections playStackStarts variant notes (Suc i) rest
             numCardsGottenByNotes)"

definition getCardsGottenByNotes ::
  "('m CardState_scheme \<Rightarrow> bool) \<Rightarrow>
   ('m CardState_scheme \<Rightarrow> 'm CardState_scheme list \<Rightarrow> 'stacks \<Rightarrow> 'directions \<Rightarrow> 'starts
      \<Rightarrow> 'suit Variant \<Rightarrow> bool \<Rightarrow> bool) \<Rightarrow>
   'm CardState_scheme list \<Rightarrow> 'stacks \<Rightarrow> 'directions \<Rightarrow> 'starts \<Rightarrow> 'suit Variant
      \<Rightarrow> CardNote list \<Rightarrow> int" where
  "getCardsGottenByNotes isCardClued isAllCardPossibilitiesTrash deck playStacks
       playStackDirections playStackStarts variant notes =
     getCardsGottenByNotes_loop isCardClued isAllCardPossibilitiesTrash deck playStacks
       playStackDirections playStackStarts variant notes 0 deck 0"

text \<open>
  The per-card delta as the description words it: minus one for a clued card whose note
  says unclued or known trash, plus one for a card without a clue whose note says clued or
  finessed, zero otherwise and when the card has no note.
\<close>

definition noteDelta_described :: "bool \<Rightarrow> CardNote option \<Rightarrow> int" where
  "noteDelta_described isCluedForReal note =
     (case note of
        None \<Rightarrow> 0
      | Some n \<Rightarrow>
          if isCluedForReal \<and> (unclued n \<or> knownTrash n) then - 1
          else if \<not> isCluedForReal \<and> (clued n \<or> finessed n) then 1
          else 0)"

text \<open>
  The same delta, with plus one only for a note that says clued or finessed and says neither
  unclued nor known trash.
\<close>

definition noteDelta_amended :: "bool \<Rightarrow> CardNote option \<Rightarrow> int" where
  "noteDelta_amended isCluedForReal note =
     (case note of
        None \<Rightarrow> 0
      | Some n \<Rightarrow>
          if isCluedForReal \<and> (unclued n \<or> knownTrash n) then - 1
          else if \<not> isCluedForReal \<and> (clued n \<or> finessed n)
                  \<and> \<not> unclued n \<and> \<not> knownTrash n then 1
          else 0)"

text \<open>
  The sum of a per-card delta over the cards of the deck that are in a player's hand and
  whose possibilities are not all trash; the card at index \<open>i\<close> has the note at index \<open>i\<close>.
\<close>

definition sumOverLiveHandCards ::
  "(bool \<Rightarrow> CardNote option \<Rightarrow> int) \<Rightarrow> ('m CardState_scheme \<Rightarrow> bool) \<Rightarrow>
   ('m CardState_scheme \<Rightarrow> bool) \<Rightarrow> 'm CardState_scheme list \<Rightarrow> CardNote list \<Rightarrow> int" where
  "sumOverLiveHandCards delta isCardClued allTrash deck notes =
     (\<Sum>i \<leftarrow> [0..<length deck].
        if isCardInPlayerHand (deck ! i) \<and> \<not> allTrash (deck ! i)
        then delta (isCardClued (deck ! i)) (arrayGet notes i) else 0)"

subsection \<open>Double discard\<close>

text \<open>
  The game state, declared here, after the functions that take a deck and play stacks as
  arguments of their own, with the fields that \<^verbatim>\<open>getDoubleDiscardCard\<close> reads.
\<close>

record TurnState =
  currentPlayerIndex :: "nat option"

record ('card, 'stacks, 'directions, 'starts) GameState =
  deck :: "'card list"
  turn :: TurnState
  hands :: "nat list list"
  playStacks :: 'stacks
  playStackDirections :: 'directions
  playStackStarts :: 'starts

text \<open>
  The loop of \<^verbatim>\<open>getDoubleDiscardCard\<close> over the deck: \<open>True\<close> when the loop returns
  \<^verbatim>\<open>null\<close>, at a card other than the discarded one, of its suit and rank, in a player's hand
  and with a single possibility left from clues.
\<close>

fun otherCopyFilledIn :: "'m CardState_scheme \<Rightarrow> 'm CardState_scheme list \<Rightarrow> bool" where
  "otherCopyFilledIn cardDiscarded [] = False"
| "otherCopyFilledIn cardDiscarded (cardInDeck # rest) =
     (if order cardInDeck \<noteq> order cardDiscarded
         \<and> suitIndex cardInDeck = suitIndex cardDiscarded
         \<and> rank cardInDeck = rank cardDiscarded
         \<and> (case location cardInDeck of InHand playerIndex \<Rightarrow> True | _ \<Rightarrow> False)
         \<and> length (possibleCardsFromClues cardInDeck) = 1
      then True
      else otherCopyFilledIn cardDiscarded rest)"

text \<open>
  The hand of the next player: \<^verbatim>\<open>hands[(currentPlayerIndex + 1) % hands.length]\<close>. With no
  hands the index is not a number and the read gives \<^verbatim>\<open>undefined\<close>.
\<close>

definition nextPlayerHand :: "nat list list \<Rightarrow> nat \<Rightarrow> nat list option" where
  "nextPlayerHand hs playerIndex =
     (if length hs = 0 then None else arrayGet hs ((playerIndex + 1) mod length hs))"

definition getDoubleDiscardCard ::
  "(nat list \<Rightarrow> 'm CardState_scheme list \<Rightarrow> bool) \<Rightarrow>
   (nat \<Rightarrow> int \<Rightarrow> 'm CardState_scheme list \<Rightarrow> 'stacks \<Rightarrow> 'directions \<Rightarrow> 'starts
      \<Rightarrow> 'suit Variant \<Rightarrow> bool) \<Rightarrow>
   ('suit \<Rightarrow> int \<Rightarrow> 'suit Variant \<Rightarrow> int) \<Rightarrow>
   ('m CardState_scheme list \<Rightarrow> nat \<Rightarrow> int \<Rightarrow> int) \<Rightarrow>
   nat \<Rightarrow> ('m CardState_scheme, 'stacks, 'directions, 'starts) GameState \<Rightarrow> 'suit Variant
      \<Rightarrow> nat option" where
  "getDoubleDiscardCard isHandLocked isCardNeedsToBePlayed getNumCopiesOfCard
       getNumDiscardedCopiesOfCard orderOfDiscardedCard gameState variant =
     (case arrayGet (deck gameState) orderOfDiscardedCard of
        None \<Rightarrow> None
      | Some cardDiscarded \<Rightarrow>
          (case currentPlayerIndex (turn gameState) of
             None \<Rightarrow> None
           | Some playerIndex \<Rightarrow>
               if (case nextPlayerHand (hands gameState) playerIndex of
                     None \<Rightarrow> False
                   | Some hand \<Rightarrow> isHandLocked hand (deck gameState))
               then None
               else
                 (case suitIndex cardDiscarded of
                    None \<Rightarrow> None
                  | Some discardedSuitIndex \<Rightarrow>
                      (case rank cardDiscarded of
                         None \<Rightarrow> None
                       | Some discardedRank \<Rightarrow>
                           if \<not> isCardNeedsToBePlayed discardedSuitIndex discardedRank
                                  (deck gameState) (playStacks gameState)
                                  (playStackDirections gameState) (playStackStarts gameState)
                                  variant
                           then None
                           else if otherCopyFilledIn cardDiscarded (deck gameState) then None
                           else
                             (case arrayGet (suits variant) discardedSuitIndex of
                                None \<Rightarrow> None
                              | Some suit \<Rightarrow>
                                  (let numCopiesTotal =
                                         getNumCopiesOfCard suit discardedRank variant;
                                       numDiscarded =
                                         getNumDiscardedCopiesOfCard (deck gameState)
                                           discardedSuitIndex discardedRank
                                   in if numCopiesTotal = numDiscarded + 1
                                      then Some orderOfDiscardedCard else None))))))"

subsection \<open>Scenarios\<close>

text \<open>
  Concrete cards and imported functions for the scenarios. A scenario card carries one
  more field, whether it has a positive clue, and its suit and rank are known.
\<close>

definition scenarioCard ::
  "nat \<Rightarrow> CardLocation \<Rightarrow> nat \<Rightarrow> int \<Rightarrow> (nat \<times> int) list \<Rightarrow> bool \<Rightarrow> bool CardState_scheme" where
  "scenarioCard cardOrder cardLocation cardSuitIndex cardRank possibilities hasPositiveClue =
     \<lparr>order = cardOrder, location = cardLocation, suitIndex = Some cardSuitIndex,
      rank = Some cardRank, possibleCardsFromClues = possibilities, isMisplayed = False,
      \<dots> = hasPositiveClue\<rparr>"

definition scenario_isCardClued :: "bool CardState_scheme \<Rightarrow> bool" where
  "scenario_isCardClued cardState = CardState.more cardState"

text \<open>A hand is locked when every card of it is in the deck and has a positive clue.\<close>

definition scenario_isHandLocked :: "nat list \<Rightarrow> bool CardState_scheme list \<Rightarrow> bool" where
  "scenario_isHandLocked hand cards =
     list_all (\<lambda>cardOrder. case arrayGet cards cardOrder of
                              None \<Rightarrow> False
                            | Some cardState \<Rightarrow> scenario_isCardClued cardState) hand"

definition scenario_getNumDiscardedCopiesOfCard ::
  "bool CardState_scheme list \<Rightarrow> nat \<Rightarrow> int \<Rightarrow> int" where
  "scenario_getNumDiscardedCopiesOfCard cards cardSuitIndex cardRank =
     int (length (filter (\<lambda>c. location c = Discard \<and> suitIndex c = Some cardSuitIndex
                              \<and> rank c = Some cardRank) cards))"

text \<open>Three copies of each 1, one copy of each 5, two copies of every other rank.\<close>

definition scenario_getNumCopiesOfCard :: "string \<Rightarrow> int \<Rightarrow> string Variant \<Rightarrow> int" where
  "scenario_getNumCopiesOfCard suit cardRank variant =
     (if cardRank = 1 then 3 else if cardRank = 5 then 1 else 2)"

definition scenarioVariant :: "string Variant" where
  "scenarioVariant = \<lparr>suits = [''Red'', ''Yellow'', ''Green'', ''Blue'', ''Purple''],
                      throwItInAHole = False\<rparr>"

text \<open>
  Three cards on the play stacks, two clued cards and one card without a clue in the hands,
  one discarded card and one card still in the deck.
\<close>

definition scenarioDeck_gotten :: "bool CardState_scheme list" where
  "scenarioDeck_gotten =
     [scenarioCard 0 PlayStack 0 1 [(0, 1)] True,
      scenarioCard 1 PlayStack 0 2 [(0, 2)] False,
      scenarioCard 2 PlayStack 1 1 [(1, 1)] False,
      scenarioCard 3 (InHand 0) 2 1 [(2, 1)] True,
      scenarioCard 4 (InHand 1) 3 1 [(3, 1), (3, 2)] True,
      scenarioCard 5 (InHand 1) 4 4 [(4, 4), (4, 5), (3, 4)] False,
      scenarioCard 6 Discard 4 3 [(4, 3)] False,
      scenarioCard 7 Deck 4 5 [(4, 5)] False]"

text \<open>
  A card in a hand without a clue, and a note on it that says both clued and known trash.
\<close>

definition scenarioDeck_notes :: "bool CardState_scheme list" where
  "scenarioDeck_notes = [scenarioCard 0 (InHand 0) 0 1 [(0, 1), (0, 2)] False]"

definition scenarioNotes :: "CardNote list" where
  "scenarioNotes = [\<lparr>clued = True, finessed = False, unclued = False, knownTrash = True\<rparr>]"

text \<open>
  Notes on the deck of the first scenario: none on the played cards, known trash on card 3,
  unclued on card 4, finessed on card 5, and no note at all for cards 6 and 7.
\<close>

definition scenarioNotes_gotten :: "CardNote list" where
  "scenarioNotes_gotten =
     [\<lparr>clued = False, finessed = False, unclued = False, knownTrash = False\<rparr>,
      \<lparr>clued = False, finessed = False, unclued = False, knownTrash = False\<rparr>,
      \<lparr>clued = False, finessed = False, unclued = False, knownTrash = False\<rparr>,
      \<lparr>clued = False, finessed = False, unclued = False, knownTrash = True\<rparr>,
      \<lparr>clued = False, finessed = False, unclued = True, knownTrash = False\<rparr>,
      \<lparr>clued = False, finessed = True, unclued = False, knownTrash = False\<rparr>]"

text \<open>
  Card 0, a red 4, has just been discarded by player 0; the other red 4 is card 1, in the
  hand of player 1 with two possibilities left. Player 1 holds cards 1 and 2, and card 2
  has no clue.
\<close>

definition scenarioGame_doubleDiscard ::
  "(bool CardState_scheme, unit, unit, unit) GameState" where
  "scenarioGame_doubleDiscard =
     \<lparr>deck = [scenarioCard 0 Discard 0 4 [(0, 4)] False,
              scenarioCard 1 (InHand 1) 0 4 [(0, 4), (1, 4)] True,
              scenarioCard 2 (InHand 1) 1 1 [(1, 1), (1, 2)] False,
              scenarioCard 3 (InHand 0) 2 2 [(2, 2)] True],
      turn = \<lparr>currentPlayerIndex = Some 0\<rparr>,
      hands = [[3], [1, 2]],
      playStacks = (), playStackDirections = (), playStackStarts = ()\<rparr>"

text \<open>The same game with a clue on card 2 as well: the hand of player 1 is locked.\<close>

definition scenarioGame_locked ::
  "(bool CardState_scheme, unit, unit, unit) GameState" where
  "scenarioGame_locked =
     scenarioGame_doubleDiscard
       \<lparr>deck := [scenarioCard 0 Discard 0 4 [(0, 4)] False,
                 scenarioCard 1 (InHand 1) 0 4 [(0, 4), (1, 4)] True,
                 scenarioCard 2 (InHand 1) 1 1 [(1, 1), (1, 2)] True,
                 scenarioCard 3 (InHand 0) 2 2 [(2, 2)] True]\<rparr>"

text \<open>
  The first game again with player 1 to move: the next player is player 0, whose only card,
  card 3, has a clue, so that hand is locked.
\<close>

definition scenarioGame_wrapAround ::
  "(bool CardState_scheme, unit, unit, unit) GameState" where
  "scenarioGame_wrapAround =
     scenarioGame_doubleDiscard \<lparr>turn := \<lparr>currentPlayerIndex = Some 1\<rparr>\<rparr>"


section \<open>Properties\<close>

subsection \<open>getPace\<close>

text \<open>
  C1. \<open>getPace\<close> returns null if and only if the game is over or the deck size is at most
  zero; otherwise it returns exactly score + deckSize - maxScore + endGameLength. With score 0,
  deck size 40, maximum score 25, end-game length 2 and the game not over it returns 17.
\<close>

theorem getPace_spec:
  "(getPace score deckSize maxScore endGameLength gameOver = None
      \<longleftrightarrow> gameOver \<or> deckSize \<le> 0)
   \<and> (\<not> (gameOver \<or> deckSize \<le> 0) \<longrightarrow>
        getPace score deckSize maxScore endGameLength gameOver
          = Some (score + deckSize - maxScore + endGameLength))
   \<and> getPace 0 40 25 2 False = Some 17"
  by (simp add: getPace_def)

theorem getPace_spec_witness:
  "\<not> (False \<or> (40::int) \<le> 0) \<and> getPace 0 40 25 2 False = Some (0 + 40 - 25 + 2)
   \<and> getPace 0 0 25 2 False = None \<and> getPace 3 40 25 2 True = None"
  using getPace_spec [of 0 40 25 2 False] getPace_spec [of 0 0 25 2 False]
    getPace_spec [of 3 40 25 2 True]
  by simp

subsection \<open>getPaceRisk\<close>

text \<open>
  C2. \<open>getPaceRisk\<close> returns the first match of: a null pace gives Low; pace at most 0 gives
  Zero; pace - n + floor(n/2) below 0 gives High; pace - n below 0 gives Medium; otherwise Low.
  The High check comes before the Medium check: a positive pace that meets both conditions
  is High.
\<close>

theorem getPaceRisk_first_match:
  "getPaceRisk None n = Low
   \<and> (pace \<le> 0 \<longrightarrow> getPaceRisk (Some pace) n = Zero)
   \<and> (\<not> pace \<le> 0 \<and> pace - n + n div 2 < 0 \<longrightarrow> getPaceRisk (Some pace) n = High)
   \<and> (\<not> pace \<le> 0 \<and> \<not> pace - n + n div 2 < 0 \<and> pace - n < 0
        \<longrightarrow> getPaceRisk (Some pace) n = Medium)
   \<and> (\<not> pace \<le> 0 \<and> \<not> pace - n + n div 2 < 0 \<and> \<not> pace - n < 0
        \<longrightarrow> getPaceRisk (Some pace) n = Low)
   \<and> (\<not> pace \<le> 0 \<and> pace - n + n div 2 < 0 \<and> pace - n < 0
        \<longrightarrow> getPaceRisk (Some pace) n = High)"
  by (simp add: getPaceRisk_def)

theorem getPaceRisk_first_match_witness:
  "getPaceRisk (Some 0) 4 = Zero
   \<and> ((1::int) - 4 + 4 div 2 < 0 \<and> (1::int) - 4 < 0 \<and> getPaceRisk (Some 1) 4 = High)
   \<and> (\<not> (2::int) - 4 + 4 div 2 < 0 \<and> (2::int) - 4 < 0 \<and> getPaceRisk (Some 2) 4 = Medium)
   \<and> (\<not> (4::int) - 4 < 0 \<and> getPaceRisk (Some 4) 4 = Low)"
  using getPaceRisk_first_match [of 4 0] getPaceRisk_first_match [of 4 1]
    getPaceRisk_first_match [of 4 2] getPaceRisk_first_match [of 4 4]
  by simp

text \<open>
  C7. For a fixed number of players the risk never decreases as the pace decreases, in the
  order Low, Medium, High, Zero; and the four outcomes split the integer paces into four
  intervals that are pairwise disjoint and leave no pace out.
\<close>

theorem getPaceRisk_monotonic_partition:
  "(p \<le> q \<longrightarrow> riskLevel (getPaceRisk (Some q) n) \<le> riskLevel (getPaceRisk (Some p) n))
   \<and> paceBucket n Zero = {pace. pace \<le> 0}
   \<and> paceBucket n High = {pace. 0 < pace \<and> pace < n - n div 2}
   \<and> paceBucket n Medium = {pace. 0 < pace \<and> n - n div 2 \<le> pace \<and> pace < n}
   \<and> paceBucket n Low = {pace. 0 < pace \<and> n - n div 2 \<le> pace \<and> n \<le> pace}
   \<and> paceBucket n Zero \<union> paceBucket n High \<union> paceBucket n Medium \<union> paceBucket n Low = UNIV
   \<and> (\<forall>r s. r \<noteq> s \<longrightarrow> paceBucket n r \<inter> paceBucket n s = {})"
proof -
  have mono: "p \<le> q \<longrightarrow> riskLevel (getPaceRisk (Some q) n) \<le> riskLevel (getPaceRisk (Some p) n)"
    by (simp add: getPaceRisk_def)
  have z: "paceBucket n Zero = {pace. pace \<le> 0}"
    by (auto simp: paceBucket_def getPaceRisk_def split: if_splits)
  have h: "paceBucket n High = {pace. 0 < pace \<and> pace < n - n div 2}"
    by (auto simp: paceBucket_def getPaceRisk_def split: if_splits)
  have m: "paceBucket n Medium = {pace. 0 < pace \<and> n - n div 2 \<le> pace \<and> pace < n}"
    by (auto simp: paceBucket_def getPaceRisk_def split: if_splits)
  have l: "paceBucket n Low = {pace. 0 < pace \<and> n - n div 2 \<le> pace \<and> n \<le> pace}"
    by (auto simp: paceBucket_def getPaceRisk_def split: if_splits)
  have cover: "paceBucket n Zero \<union> paceBucket n High \<union> paceBucket n Medium \<union> paceBucket n Low = UNIV"
  proof -
    have "pace \<in> paceBucket n Zero \<union> paceBucket n High \<union> paceBucket n Medium \<union> paceBucket n Low"
      for pace
      by (cases "getPaceRisk (Some pace) n") (simp_all add: paceBucket_def)
    then show ?thesis by blast
  qed
  have disj: "\<forall>r s. r \<noteq> s \<longrightarrow> paceBucket n r \<inter> paceBucket n s = {}"
    by (auto simp: paceBucket_def)
  from mono z h m l cover disj show ?thesis by blast
qed

theorem getPaceRisk_monotonic_partition_witness:
  "(2::int) \<le> 5
   \<and> riskLevel (getPaceRisk (Some 5) 4) \<le> riskLevel (getPaceRisk (Some 2) 4)
   \<and> getPaceRisk (Some 5) 4 = Low \<and> getPaceRisk (Some 2) 4 = Medium
   \<and> Low \<noteq> Medium \<and> paceBucket 4 Low \<inter> paceBucket 4 Medium = {}"
  using getPaceRisk_monotonic_partition [of 2 5 4]
  by (auto simp: getPaceRisk_def)

text \<open>
  C9. With one or two players \<open>getPaceRisk\<close> never returns High: no pace of at least 1
  satisfies pace - n + floor(n/2) < 0 there, so the result is Zero, Medium or Low.
\<close>

theorem getPaceRisk_no_High_for_1_or_2:
  "n = 1 \<or> n = 2 \<Longrightarrow>
     getPaceRisk currentPace n \<noteq> High
     \<and> getPaceRisk currentPace n \<in> {Zero, Medium, Low}
     \<and> (\<forall>pace \<ge> 1. \<not> pace - n + n div 2 < 0)"
  by (auto simp: getPaceRisk_def split: option.splits)

theorem getPaceRisk_no_High_for_1_or_2_witness:
  "((2::int) = 1 \<or> (2::int) = 2)
   \<and> getPaceRisk (Some 1) 2 \<noteq> High \<and> getPaceRisk (Some 1) 2 = Medium
   \<and> \<not> (1::int) - 2 + 2 div 2 < 0"
  using getPaceRisk_no_High_for_1_or_2 [of 2 "Some 1"]
  by (simp add: getPaceRisk_def)

subsection \<open>getCluesStillUsableNotRounded\<close>

text \<open>
  C3. \<open>getCluesStillUsableNotRounded\<close> raises when the two score lists differ in
  length, raises when the discard value is below the suit value, and, when neither is so,
  returns null exactly when the deck size is at most zero (and a number otherwise).
\<close>

theorem getCluesStillUsableNotRounded_errors:
  "(length scorePerStack \<noteq> length maxScorePerStack \<longrightarrow>
      isl (getCluesStillUsableNotRounded score scorePerStack maxScorePerStack stackSize
             deckSize endGameLength discardValue suitValue currentClues))
   \<and> (discardValue < suitValue \<longrightarrow>
      isl (getCluesStillUsableNotRounded score scorePerStack maxScorePerStack stackSize
             deckSize endGameLength discardValue suitValue currentClues))
   \<and> (length scorePerStack = length maxScorePerStack \<and> \<not> discardValue < suitValue \<longrightarrow>
        (getCluesStillUsableNotRounded score scorePerStack maxScorePerStack stackSize
             deckSize endGameLength discardValue suitValue currentClues = Inr None
         \<longleftrightarrow> deckSize \<le> 0)
        \<and> (0 < deckSize \<longrightarrow>
             (\<exists>v. getCluesStillUsableNotRounded score scorePerStack maxScorePerStack stackSize
                    deckSize endGameLength discardValue suitValue currentClues = Inr (Some v))))"
  by (simp add: getCluesStillUsableNotRounded_def Let_def)

theorem getCluesStillUsableNotRounded_errors_witness:
  "length [0::int] \<noteq> length [5, 5::int]
   \<and> isl (getCluesStillUsableNotRounded 0 [0] [5, 5] 5 10 2 1 1 8)
   \<and> (1::rat) < 2
   \<and> isl (getCluesStillUsableNotRounded 0 [0, 0] [5, 5] 5 10 2 1 2 8)
   \<and> length [0, 0::int] = length [5, 5::int] \<and> \<not> (1::rat) < 1
   \<and> getCluesStillUsableNotRounded 0 [0, 0] [5, 5] 5 0 2 1 1 8 = Inr None
   \<and> getCluesStillUsableNotRounded 0 [0, 0] [5, 5] 5 1 2 1 1 8 \<noteq> Inr None"
  using getCluesStillUsableNotRounded_errors [of "[0]" "[5, 5]" 0 5 10 2 1 1 8]
    getCluesStillUsableNotRounded_errors [of "[0, 0]" "[5, 5]" 0 5 10 2 1 2 8]
    getCluesStillUsableNotRounded_errors [of "[0, 0]" "[5, 5]" 0 5 0 2 1 1 8]
    getCluesStillUsableNotRounded_errors [of "[0, 0]" "[5, 5]" 0 5 1 2 1 1 8]
  by simp

text \<open>The first loop collects the candidates of the description, in the order of the suits.\<close>

lemma missingCardsPerCompletableSuit_eq:
  "missingCardsPerCompletableSuit i ss ms k = completableCandidates_spec ss (drop i ms) k"
proof (induction ss arbitrary: i)
  case Nil
  then show ?case by (simp add: completableCandidates_spec_def)
next
  case (Cons s ss)
  show ?case
  proof (cases "i < length ms")
    case True
    then have d: "drop i ms = ms ! i # drop (Suc i) ms"
      by (simp add: Cons_nth_drop_Suc)
    show ?thesis using True Cons.IH [of "Suc i"]
      by (simp add: d completableCandidates_spec_def)
  next
    case False
    then show ?thesis using Cons.IH [of "Suc i"]
      by (simp add: completableCandidates_spec_def)
  qed
qed

lemma greedyPacked_spec_Nil: "greedyPacked_spec b [] = 0"
  by (simp add: greedyPacked_spec_def)

lemma greedyPacked_spec_Cons:
  "greedyPacked_spec b (m # ms) = (if m \<le> b then Suc (greedyPacked_spec (b - m) ms) else 0)"
proof -
  have u: "[1..<Suc (Suc (length ms))] = 1 # map Suc [1..<Suc (length ms)]"
    by (subst upt_conv_Cons) (simp_all add: map_Suc_upt)
  have e: "(\<lambda>k. sum_list (take k (m # ms)) \<le> b) \<circ> Suc = (\<lambda>k. sum_list (take k ms) \<le> b - m)"
    by (auto simp: fun_eq_iff)
  show ?thesis
    unfolding greedyPacked_spec_def length_Cons u
    by (simp add: takeWhile_map e del: upt_Suc)
qed

text \<open>The second loop is the greedy packing, into what is left of the budget.\<close>

lemma suitsCompletedBeforeFinalRound_eq:
  "suitsCompletedBeforeFinalRound b played n ms = n + greedyPacked_spec (b - played) ms"
  by (induction ms arbitrary: played n)
    (auto simp: greedyPacked_spec_Nil greedyPacked_spec_Cons algebra_simps)

text \<open>
  What the greedy packing counts: every prefix up to the count fits in the budget, and one
  candidate more, when there is one, does not.
\<close>

lemma greedyPacked_spec_prefix:
  "greedyPacked_spec b cs \<le> length cs
   \<and> (\<forall>j. 1 \<le> j \<and> j \<le> greedyPacked_spec b cs \<longrightarrow> sum_list (take j cs) \<le> b)
   \<and> (greedyPacked_spec b cs < length cs
        \<longrightarrow> b < sum_list (take (Suc (greedyPacked_spec b cs)) cs))"
proof (induction cs arbitrary: b)
  case Nil
  then show ?case by (simp add: greedyPacked_spec_Nil)
next
  case (Cons c cs)
  show ?case
  proof (cases "c \<le> b")
    case False
    then show ?thesis by (simp add: greedyPacked_spec_Cons)
  next
    case True
    have fits: "sum_list (take j (c # cs)) \<le> b"
      if "1 \<le> j" "j \<le> Suc (greedyPacked_spec (b - c) cs)" for j
    proof (cases j)
      case 0
      with that show ?thesis by simp
    next
      case (Suc i)
      show ?thesis
      proof (cases "i = 0")
        case True
        with Suc \<open>c \<le> b\<close> show ?thesis by simp
      next
        case False
        with Suc that Cons.IH [of "b - c"] have "sum_list (take i cs) \<le> b - c" by simp
        with Suc show ?thesis by simp
      qed
    qed
    from True Cons.IH [of "b - c"] fits show ?thesis
      by (auto simp: greedyPacked_spec_Cons)
  qed
qed

text \<open>
  The three helpers in closed form: the discards before the final round, and the plays
  overall and during the final round that make up the play budget before the final round.
\<close>

lemma getMaxDiscardsBeforeFinalRound_closed:
  "getMaxDiscardsBeforeFinalRound cardsToPlay deckSize endGameLength
     = (if cardsToPlay \<le> endGameLength + 1 then deckSize - 1
        else max 0 (endGameLength + deckSize - cardsToPlay))"
  by (simp add: getMaxDiscardsBeforeFinalRound_def)

lemma playBudgetBeforeFinalRound_closed:
  "playBudgetBeforeFinalRound missingScore deckSize endGameLength
     = min missingScore (endGameLength + deckSize) - min missingScore (endGameLength + 1)"
  by (simp add: playBudgetBeforeFinalRound_def getMaxPlays_def
      getMaxPlaysDuringFinalRound_def)

text \<open>
  C5. When \<open>getCluesStillUsableNotRounded\<close> returns a non-null value, that value equals
  the discards before the final round times the discard value, plus the suit value times
  the number of suits completable before the final round, plus the current clues. The
  candidates are the suits whose maximum score is the stack size and whose score is below
  it; they are sorted ascending by the cards they still need and packed greedily into the
  play budget before the final round. The suit value is a number of clues and so not
  negative. The discards and the budget are also given in closed form, with
  \<open>m\<close> the missing score: the discards are deckSize - 1 when m is at most
  endGameLength + 1 and otherwise endGameLength + deckSize - m, or 0 when that is negative;
  the budget is min m (endGameLength + deckSize) - min m (endGameLength + 1).
\<close>

theorem getCluesStillUsableNotRounded_value:
  assumes "getCluesStillUsableNotRounded score scorePerStack maxScorePerStack stackSize
             deckSize endGameLength discardValue suitValue currentClues = Inr (Some v)"
    and "0 \<le> suitValue"
  shows "v = cluesStillUsable_described score scorePerStack maxScorePerStack stackSize
               deckSize endGameLength discardValue suitValue currentClues
         \<and> v = of_int (if sum_list maxScorePerStack - score \<le> endGameLength + 1
                        then deckSize - 1
                        else max 0 (endGameLength + deckSize
                                     - (sum_list maxScorePerStack - score)))
                  * discardValue
                + suitValue
                    * of_nat (greedyPacked_spec
                                (min (sum_list maxScorePerStack - score)
                                     (endGameLength + deckSize)
                                 - min (sum_list maxScorePerStack - score)
                                     (endGameLength + 1))
                                (sort (completableCandidates_spec scorePerStack
                                         maxScorePerStack stackSize)))
                + currentClues"
proof -
  have described:
    "v = cluesStillUsable_described score scorePerStack maxScorePerStack stackSize
           deckSize endGameLength discardValue suitValue currentClues"
    using assms
    by (auto simp: getCluesStillUsableNotRounded_def cluesStillUsable_described_def Let_def
          playBudgetBeforeFinalRound_def suitsCompletedBeforeFinalRound_eq
          missingCardsPerCompletableSuit_eq split: if_splits)
  have closed:
    "cluesStillUsable_described score scorePerStack maxScorePerStack stackSize
           deckSize endGameLength discardValue suitValue currentClues
     = of_int (if sum_list maxScorePerStack - score \<le> endGameLength + 1
               then deckSize - 1
               else max 0 (endGameLength + deckSize - (sum_list maxScorePerStack - score)))
         * discardValue
       + suitValue
           * of_nat (greedyPacked_spec
                       (min (sum_list maxScorePerStack - score) (endGameLength + deckSize)
                        - min (sum_list maxScorePerStack - score) (endGameLength + 1))
                       (sort (completableCandidates_spec scorePerStack
                                maxScorePerStack stackSize)))
       + currentClues"
    unfolding cluesStillUsable_described_def Let_def
      getMaxDiscardsBeforeFinalRound_closed playBudgetBeforeFinalRound_closed
    by (rule refl)
  from described closed show ?thesis by simp
qed

theorem getCluesStillUsableNotRounded_value_witness:
  "getCluesStillUsableNotRounded 4 [4, 0] [5, 5] 5 10 2 1 1 8 = Inr (Some 15)
   \<and> (0::rat) \<le> 1
   \<and> (15::rat) = cluesStillUsable_described 4 [4, 0] [5, 5] 5 10 2 1 1 8
   \<and> (15::rat) = of_int (max 0 (2 + 10 - (sum_list [5, 5] - 4))) * 1
        + 1 * of_nat (greedyPacked_spec 3 [1, 5]) + 8"
proof -
  have h: "getCluesStillUsableNotRounded 4 [4, 0] [5, 5] 5 10 2 1 1 8 = Inr (Some 15)"
    by code_simp
  have p: "(0::rat) \<le> 1"
    by simp
  have g: "greedyPacked_spec 3 [1, 5] = 1"
    by (simp add: greedyPacked_spec_Cons greedyPacked_spec_Nil)
  from getCluesStillUsableNotRounded_value [OF h p] h g show ?thesis by simp
qed

subsection \<open>getCardsGotten\<close>

lemma getCardsGotten_loop_count:
  "getCardsGotten_loop isCardClued trash dk ps pd pst playing shadowing v cs acc =
     acc + int (length (filter (\<lambda>c. location c = PlayStack
            \<or> (location c = Discard \<and> isMisplayed c \<and> throwItInAHole v \<and> (playing \<or> shadowing))
            \<or> (isCardInPlayerHand c \<and> isCardClued c \<and> \<not> trash c dk ps pd pst v False)) cs))"
  by (induction cs arbitrary: acc) auto

text \<open>A card in a player's hand is neither on a play stack nor in the discard pile.\<close>

lemma isCardInPlayerHand_location:
  "isCardInPlayerHand c \<Longrightarrow> location c \<noteq> PlayStack \<and> location c \<noteq> Discard"
  by (auto simp: isCardInPlayerHand_def)

lemma gotten_three_way:
  "int (length (filter (\<lambda>c. location c = PlayStack
            \<or> (location c = Discard \<and> isMisplayed c \<and> g)
            \<or> (isCardInPlayerHand c \<and> isCardClued c \<and> \<not> allTrash c)) cs))
   = cardsOnPlayStacks cs + (if g then misplayedDiscards cs else 0)
     + cluedLiveHandCards isCardClued allTrash cs"
  unfolding cardsOnPlayStacks_def misplayedDiscards_def cluedLiveHandCards_def
  by (induction cs) (auto dest: isCardInPlayerHand_location)

text \<open>
  C6. \<open>getCardsGotten\<close> returns the number of cards on the play stacks, plus the
  misplayed discarded cards (only when the variant is a throw-it-in-a-hole one and the
  caller is playing or shadowing), plus the cards in a player's hand that are clued and
  whose possibilities are not all trash, and the total never exceeds the maximum score:
  it is the smaller of the sum and the maximum score. Three played cards and two clued
  cards in hand that are not trash give 5 when the maximum score is 25.
\<close>

theorem getCardsGotten_count:
  "getCardsGotten isCardClued trash dk ps pd pst playing shadowing maxScore v
     = min maxScore
         (cardsOnPlayStacks dk
          + (if throwItInAHole v \<and> (playing \<or> shadowing) then misplayedDiscards dk else 0)
          + cluedLiveHandCards isCardClued (\<lambda>c. trash c dk ps pd pst v False) dk)
   \<and> getCardsGotten isCardClued trash dk ps pd pst playing shadowing maxScore v \<le> maxScore
   \<and> (cardsOnPlayStacks dk = 3
        \<and> cluedLiveHandCards isCardClued (\<lambda>c. trash c dk ps pd pst v False) dk = 2
        \<and> (throwItInAHole v \<and> (playing \<or> shadowing) \<longrightarrow> misplayedDiscards dk = 0)
        \<and> maxScore = 25
      \<longrightarrow> getCardsGotten isCardClued trash dk ps pd pst playing shadowing maxScore v = 5)"
proof -
  have eq: "getCardsGotten isCardClued trash dk ps pd pst playing shadowing maxScore v
     = min maxScore
         (cardsOnPlayStacks dk
          + (if throwItInAHole v \<and> (playing \<or> shadowing) then misplayedDiscards dk else 0)
          + cluedLiveHandCards isCardClued (\<lambda>c. trash c dk ps pd pst v False) dk)"
    unfolding getCardsGotten_def getCardsGotten_loop_count Let_def
      gotten_three_way [of "throwItInAHole v \<and> (playing \<or> shadowing)" isCardClued
        "\<lambda>c. trash c dk ps pd pst v False" dk]
    by simp
  show ?thesis unfolding eq by auto
qed

theorem getCardsGotten_count_witness:
  "cardsOnPlayStacks scenarioDeck_gotten = 3
   \<and> cluedLiveHandCards scenario_isCardClued (\<lambda>c. False) scenarioDeck_gotten = 2
   \<and> \<not> throwItInAHole scenarioVariant
   \<and> getCardsGotten scenario_isCardClued (\<lambda>c dk ps pd pst v b. False) scenarioDeck_gotten
        () () () True False 25 scenarioVariant = 5
   \<and> getCardsGotten scenario_isCardClued (\<lambda>c dk ps pd pst v b. False) scenarioDeck_gotten
        () () () True False 4 scenarioVariant = 4"
proof -
  have a: "cardsOnPlayStacks scenarioDeck_gotten = 3"
    by (simp add: cardsOnPlayStacks_def scenarioDeck_gotten_def scenarioCard_def)
  have b: "cluedLiveHandCards scenario_isCardClued (\<lambda>c. False) scenarioDeck_gotten = 2"
    by (simp add: cluedLiveHandCards_def scenarioDeck_gotten_def scenarioCard_def
        scenario_isCardClued_def isCardInPlayerHand_def)
  have c: "\<not> throwItInAHole scenarioVariant"
    by (simp add: scenarioVariant_def)
  from a b c
    getCardsGotten_count [of scenario_isCardClued "\<lambda>c dk ps pd pst v b. False"
      scenarioDeck_gotten "()" "()" "()" True False 25 scenarioVariant]
    getCardsGotten_count [of scenario_isCardClued "\<lambda>c dk ps pd pst v b. False"
      scenarioDeck_gotten "()" "()" "()" True False 4 scenarioVariant]
  show ?thesis by simp
qed

subsection \<open>getCardsGottenByNotes\<close>

lemma getCardsGottenByNotesAdjustment_eq:
  "getCardsGottenByNotesAdjustment isCardClued notes i c
     = noteDelta_amended (isCardClued c) (arrayGet notes i)"
  by (simp add: getCardsGottenByNotesAdjustment_def noteDelta_amended_def Let_def
      split: option.splits)

lemma sum_list_upt_shift:
  "(\<Sum>j \<leftarrow> [0..<Suc n]. f j) = f 0 + (\<Sum>j \<leftarrow> [0..<n]. f (Suc j))"
proof -
  have "[0..<Suc n] = 0 # map Suc [0..<n]"
    by (subst upt_conv_Cons) (simp_all add: map_Suc_upt)
  then show ?thesis by (simp add: comp_def del: upt_Suc)
qed

lemma getCardsGottenByNotes_loop_sum:
  "getCardsGottenByNotes_loop isCardClued trash dk ps pd pst v notes i cs acc =
     acc + (\<Sum>j \<leftarrow> [0..<length cs].
              if isCardInPlayerHand (cs ! j) \<and> \<not> trash (cs ! j) dk ps pd pst v False
              then noteDelta_amended (isCardClued (cs ! j)) (arrayGet notes (i + j)) else 0)"
proof (induction cs arbitrary: i acc)
  case Nil
  then show ?case by simp
next
  case (Cons c cs)
  show ?case
    unfolding length_Cons sum_list_upt_shift
    by (simp add: Cons.IH getCardsGottenByNotesAdjustment_eq Let_def del: upt_Suc
        cong: if_cong)
qed

text \<open>
  C8, as stated: the per-card delta is plus one whenever the card has no real clue and its
  note says clued or finessed. This fails for a note that also says unclued or known trash:
  for one card in hand without a clue, with a note that says clued and known trash, the code
  returns 0 and the description gives 1.
\<close>

theorem getCardsGottenByNotes_clued_and_trash_note_counterexample:
  "getCardsGottenByNotes scenario_isCardClued (\<lambda>c dk ps pd pst v b. False) scenarioDeck_notes
      () () () scenarioVariant scenarioNotes = 0
   \<and> sumOverLiveHandCards noteDelta_described scenario_isCardClued (\<lambda>c. False)
        scenarioDeck_notes scenarioNotes = 1"
  by (simp add: getCardsGottenByNotes_def getCardsGottenByNotesAdjustment_def
      sumOverLiveHandCards_def noteDelta_described_def scenarioDeck_notes_def
      scenarioNotes_def scenarioCard_def scenario_isCardClued_def isCardInPlayerHand_def
      arrayGet_def)

text \<open>
  C8, amended: \<open>getCardsGottenByNotes\<close> sums, over exactly the cards that are in a
  player's hand and whose possibilities are not all trash, a per-card delta: minus one when
  the card is clued and its note says unclued or known trash; plus one when the card is not
  clued and its note says clued or finessed and says neither unclued nor known trash; zero
  in every other case, also when the card has no note.
\<close>

theorem getCardsGottenByNotes_sum:
  "getCardsGottenByNotes isCardClued trash dk ps pd pst v notes
     = sumOverLiveHandCards noteDelta_amended isCardClued
         (\<lambda>c. trash c dk ps pd pst v False) dk notes"
  by (simp add: getCardsGottenByNotes_def getCardsGottenByNotes_loop_sum
      sumOverLiveHandCards_def cong: if_cong)

theorem getCardsGottenByNotes_sum_witness:
  "getCardsGottenByNotes scenario_isCardClued (\<lambda>c dk ps pd pst v b. False) scenarioDeck_gotten
      () () () scenarioVariant scenarioNotes_gotten = - 1
   \<and> sumOverLiveHandCards noteDelta_amended scenario_isCardClued (\<lambda>c. False)
        scenarioDeck_gotten scenarioNotes_gotten = - 1"
proof -
  have s: "sumOverLiveHandCards noteDelta_amended scenario_isCardClued (\<lambda>c. False)
        scenarioDeck_gotten scenarioNotes_gotten = - 1"
    by (simp add: sumOverLiveHandCards_def noteDelta_amended_def scenarioDeck_gotten_def
        scenarioNotes_gotten_def scenarioCard_def scenario_isCardClued_def
        isCardInPlayerHand_def arrayGet_def upt_rec)
  from s getCardsGottenByNotes_sum [of scenario_isCardClued "\<lambda>c dk ps pd pst v b. False"
      scenarioDeck_gotten "()" "()" "()" scenarioVariant scenarioNotes_gotten]
  show ?thesis by simp
qed

subsection \<open>getDoubleDiscardCard\<close>

lemma otherCopyFilledIn_iff:
  "otherCopyFilledIn d cs \<longleftrightarrow>
     (\<exists>c \<in> set cs. order c \<noteq> order d \<and> suitIndex c = suitIndex d \<and> rank c = rank d
        \<and> isCardInPlayerHand c \<and> length (possibleCardsFromClues c) = 1)"
  by (induction cs) (auto simp: isCardInPlayerHand_def)

text \<open>
  The hand that \<open>nextPlayerHand\<close> reads is the hand at the index after the current player's,
  wrapping around at the number of hands, when there is any hand.
\<close>

lemma nextPlayerHand_Some_iff:
  "nextPlayerHand hs playerIndex = Some hand
     \<longleftrightarrow> hs \<noteq> [] \<and> hand = hs ! ((playerIndex + 1) mod length hs)"
  by (auto simp: nextPlayerHand_def arrayGet_def)

lemma arrayGet_Some_iff: "arrayGet xs i = Some x \<longleftrightarrow> i < length xs \<and> x = xs ! i"
  by (auto simp: arrayGet_def)

text \<open>
  C4. \<open>getDoubleDiscardCard\<close> returns the order of the discarded card exactly when: the
  game is not over (there is a current player); the hand of the next player, the hand at
  index (currentPlayerIndex + 1) mod the number of hands, is not locked; the suit and the
  rank of the discarded card are known; the card still needs to be played; no other card of
  the same suit and rank is in a player's hand with a single possibility left from clues;
  and the copies of that suit and rank in the variant are the discarded copies plus one. It
  returns null otherwise, and in particular whenever the hand of the next player is locked.
  The discarded card is the card of the deck at the given order and the suit is the suit of
  the variant at the card's suit index.
\<close>

theorem getDoubleDiscardCard_iff:
  "(getDoubleDiscardCard isHandLocked isCardNeedsToBePlayed getNumCopiesOfCard
       getNumDiscardedCopiesOfCard orderOfDiscardedCard gameState variant
      = Some orderOfDiscardedCard
    \<longleftrightarrow>
    (\<exists>playerIndex s r.
        orderOfDiscardedCard < length (deck gameState)
      \<and> currentPlayerIndex (turn gameState) = Some playerIndex
      \<and> \<not> (hands gameState \<noteq> []
              \<and> isHandLocked
                    (hands gameState ! ((playerIndex + 1) mod length (hands gameState)))
                    (deck gameState))
      \<and> suitIndex (deck gameState ! orderOfDiscardedCard) = Some s
      \<and> rank (deck gameState ! orderOfDiscardedCard) = Some r
      \<and> isCardNeedsToBePlayed s r (deck gameState) (playStacks gameState)
            (playStackDirections gameState) (playStackStarts gameState) variant
      \<and> \<not> (\<exists>c \<in> set (deck gameState).
               order c \<noteq> order (deck gameState ! orderOfDiscardedCard)
               \<and> suitIndex c = Some s \<and> rank c = Some r
               \<and> (\<exists>handIndex. location c = InHand handIndex)
               \<and> length (possibleCardsFromClues c) = 1)
      \<and> s < length (suits variant)
      \<and> getNumCopiesOfCard (suits variant ! s) r variant
            = getNumDiscardedCopiesOfCard (deck gameState) s r + 1))
   \<and> (getDoubleDiscardCard isHandLocked isCardNeedsToBePlayed getNumCopiesOfCard
         getNumDiscardedCopiesOfCard orderOfDiscardedCard gameState variant
        \<noteq> Some orderOfDiscardedCard
       \<longrightarrow> getDoubleDiscardCard isHandLocked isCardNeedsToBePlayed getNumCopiesOfCard
             getNumDiscardedCopiesOfCard orderOfDiscardedCard gameState variant = None)
   \<and> (\<forall>playerIndex.
         currentPlayerIndex (turn gameState) = Some playerIndex
         \<and> hands gameState \<noteq> []
         \<and> isHandLocked (hands gameState ! ((playerIndex + 1) mod length (hands gameState)))
               (deck gameState)
       \<longrightarrow> getDoubleDiscardCard isHandLocked isCardNeedsToBePlayed getNumCopiesOfCard
             getNumDiscardedCopiesOfCard orderOfDiscardedCard gameState variant = None)"
proof -
  let ?result = "getDoubleDiscardCard isHandLocked isCardNeedsToBePlayed getNumCopiesOfCard
       getNumDiscardedCopiesOfCard orderOfDiscardedCard gameState variant"
  have inHand: "isCardInPlayerHand c \<longleftrightarrow> (\<exists>handIndex. location c = InHand handIndex)"
    for c :: "'a CardState_scheme"
    by (cases "location c") (simp_all add: isCardInPlayerHand_def)
  have locked: "(case nextPlayerHand (hands gameState) p of
                   None \<Rightarrow> False
                 | Some hand \<Rightarrow> isHandLocked hand (deck gameState))
                \<longleftrightarrow> hands gameState \<noteq> []
                    \<and> isHandLocked (hands gameState ! ((p + 1) mod length (hands gameState)))
                          (deck gameState)" for p
    by (auto simp: nextPlayerHand_def arrayGet_def)
  have main: "?result = Some orderOfDiscardedCard \<longleftrightarrow>
    (\<exists>playerIndex s r.
        orderOfDiscardedCard < length (deck gameState)
      \<and> currentPlayerIndex (turn gameState) = Some playerIndex
      \<and> \<not> (hands gameState \<noteq> []
              \<and> isHandLocked
                    (hands gameState ! ((playerIndex + 1) mod length (hands gameState)))
                    (deck gameState))
      \<and> suitIndex (deck gameState ! orderOfDiscardedCard) = Some s
      \<and> rank (deck gameState ! orderOfDiscardedCard) = Some r
      \<and> isCardNeedsToBePlayed s r (deck gameState) (playStacks gameState)
            (playStackDirections gameState) (playStackStarts gameState) variant
      \<and> \<not> (\<exists>c \<in> set (deck gameState).
               order c \<noteq> order (deck gameState ! orderOfDiscardedCard)
               \<and> suitIndex c = Some s \<and> rank c = Some r
               \<and> (\<exists>handIndex. location c = InHand handIndex)
               \<and> length (possibleCardsFromClues c) = 1)
      \<and> s < length (suits variant)
      \<and> getNumCopiesOfCard (suits variant ! s) r variant
            = getNumDiscardedCopiesOfCard (deck gameState) s r + 1)"
    unfolding getDoubleDiscardCard_def locked otherCopyFilledIn_iff inHand Let_def
    by (auto simp: arrayGet_def split: option.splits if_splits)
  have other: "?result \<noteq> Some orderOfDiscardedCard \<longrightarrow> ?result = None"
    by (simp add: getDoubleDiscardCard_def Let_def split: option.splits)
  have particular: "\<forall>playerIndex.
         currentPlayerIndex (turn gameState) = Some playerIndex
         \<and> hands gameState \<noteq> []
         \<and> isHandLocked (hands gameState ! ((playerIndex + 1) mod length (hands gameState)))
               (deck gameState)
       \<longrightarrow> ?result = None"
    unfolding getDoubleDiscardCard_def locked
    by (auto split: option.splits)
  from main other particular show ?thesis by blast
qed

theorem getDoubleDiscardCard_iff_witness:
  "getDoubleDiscardCard scenario_isHandLocked (\<lambda>s r dk ps pd pst v. True)
      scenario_getNumCopiesOfCard scenario_getNumDiscardedCopiesOfCard 0
      scenarioGame_doubleDiscard scenarioVariant = Some 0
   \<and> currentPlayerIndex (turn scenarioGame_locked) = Some 0
   \<and> hands scenarioGame_locked \<noteq> []
   \<and> hands scenarioGame_locked ! ((0 + 1) mod length (hands scenarioGame_locked)) = [1, 2]
   \<and> scenario_isHandLocked [1, 2] (deck scenarioGame_locked)
   \<and> getDoubleDiscardCard scenario_isHandLocked (\<lambda>s r dk ps pd pst v. True)
        scenario_getNumCopiesOfCard scenario_getNumDiscardedCopiesOfCard 0
        scenarioGame_locked scenarioVariant = None
   \<and> currentPlayerIndex (turn scenarioGame_wrapAround) = Some 1
   \<and> hands scenarioGame_wrapAround ! ((1 + 1) mod length (hands scenarioGame_wrapAround)) = [3]
   \<and> scenario_isHandLocked [3] (deck scenarioGame_wrapAround)
   \<and> getDoubleDiscardCard scenario_isHandLocked (\<lambda>s r dk ps pd pst v. True)
        scenario_getNumCopiesOfCard scenario_getNumDiscardedCopiesOfCard 0
        scenarioGame_wrapAround scenarioVariant = None"
proof -
  have situation:
    "\<exists>playerIndex s r.
        0 < length (deck scenarioGame_doubleDiscard)
      \<and> currentPlayerIndex (turn scenarioGame_doubleDiscard) = Some playerIndex
      \<and> \<not> (hands scenarioGame_doubleDiscard \<noteq> []
              \<and> scenario_isHandLocked
                    (hands scenarioGame_doubleDiscard
                       ! ((playerIndex + 1) mod length (hands scenarioGame_doubleDiscard)))
                    (deck scenarioGame_doubleDiscard))
      \<and> suitIndex (deck scenarioGame_doubleDiscard ! 0) = Some s
      \<and> rank (deck scenarioGame_doubleDiscard ! 0) = Some r
      \<and> (\<lambda>s r dk ps pd pst v. True) s r (deck scenarioGame_doubleDiscard)
            (playStacks scenarioGame_doubleDiscard)
            (playStackDirections scenarioGame_doubleDiscard)
            (playStackStarts scenarioGame_doubleDiscard) scenarioVariant
      \<and> \<not> (\<exists>c \<in> set (deck scenarioGame_doubleDiscard).
               order c \<noteq> order (deck scenarioGame_doubleDiscard ! 0)
               \<and> suitIndex c = Some s \<and> rank c = Some r
               \<and> (\<exists>handIndex. location c = InHand handIndex)
               \<and> length (possibleCardsFromClues c) = 1)
      \<and> s < length (suits scenarioVariant)
      \<and> scenario_getNumCopiesOfCard (suits scenarioVariant ! s) r scenarioVariant
            = scenario_getNumDiscardedCopiesOfCard (deck scenarioGame_doubleDiscard) s r + 1"
    by (simp add: scenarioGame_doubleDiscard_def scenarioVariant_def scenarioCard_def
        arrayGet_def scenario_isHandLocked_def scenario_isCardClued_def
        scenario_getNumCopiesOfCard_def scenario_getNumDiscardedCopiesOfCard_def)
  have a: "currentPlayerIndex (turn scenarioGame_locked) = Some 0"
    by (simp add: scenarioGame_locked_def scenarioGame_doubleDiscard_def)
  have n: "hands scenarioGame_locked \<noteq> []"
    by (simp add: scenarioGame_locked_def scenarioGame_doubleDiscard_def)
  have b: "hands scenarioGame_locked ! ((0 + 1) mod length (hands scenarioGame_locked)) = [1, 2]"
    by (simp add: scenarioGame_locked_def scenarioGame_doubleDiscard_def)
  have c: "scenario_isHandLocked [1, 2] (deck scenarioGame_locked)"
    by (simp add: scenarioGame_locked_def scenario_isHandLocked_def arrayGet_def
        scenarioCard_def scenario_isCardClued_def)
  have a': "currentPlayerIndex (turn scenarioGame_wrapAround) = Some 1"
    by (simp add: scenarioGame_wrapAround_def)
  have n': "hands scenarioGame_wrapAround \<noteq> []"
    by (simp add: scenarioGame_wrapAround_def scenarioGame_doubleDiscard_def)
  have b': "hands scenarioGame_wrapAround
              ! ((1 + 1) mod length (hands scenarioGame_wrapAround)) = [3]"
    by (simp add: scenarioGame_wrapAround_def scenarioGame_doubleDiscard_def)
  have c': "scenario_isHandLocked [3] (deck scenarioGame_wrapAround)"
    by (simp add: scenarioGame_wrapAround_def scenarioGame_doubleDiscard_def
        scenario_isHandLocked_def arrayGet_def scenarioCard_def scenario_isCardClued_def)
  note doubleDiscard =
    getDoubleDiscardCard_iff [of scenario_isHandLocked "\<lambda>s r dk ps pd pst v. True"
      scenario_getNumCopiesOfCard scenario_getNumDiscardedCopiesOfCard 0
      scenarioGame_doubleDiscard scenarioVariant]
  note locked =
    getDoubleDiscardCard_iff [of scenario_isHandLocked "\<lambda>s r dk ps pd pst v. True"
      scenario_getNumCopiesOfCard scenario_getNumDiscardedCopiesOfCard 0
      scenarioGame_locked scenarioVariant]
  note wrapAround =
    getDoubleDiscardCard_iff [of scenario_isHandLocked "\<lambda>s r dk ps pd pst v. True"
      scenario_getNumCopiesOfCard scenario_getNumDiscardedCopiesOfCard 0
      scenarioGame_wrapAround scenarioVariant]
  from situation doubleDiscard
  have d: "getDoubleDiscardCard scenario_isHandLocked (\<lambda>s r dk ps pd pst v. True)
      scenario_getNumCopiesOfCard scenario_getNumDiscardedCopiesOfCard 0
      scenarioGame_doubleDiscard scenarioVariant = Some 0"
    by blast
  from a n b c locked
  have e: "getDoubleDiscardCard scenario_isHandLocked (\<lambda>s r dk ps pd pst v. True)
        scenario_getNumCopiesOfCard scenario_getNumDiscardedCopiesOfCard 0
        scenarioGame_locked scenarioVariant = None"
    by (metis (no_types))
  from a' n' b' c' wrapAround
  have e': "getDoubleDiscardCard scenario_isHandLocked (\<lambda>s r dk ps pd pst v. True)
        scenario_getNumCopiesOfCard scenario_getNumDiscardedCopiesOfCard 0
        scenarioGame_wrapAround scenarioVariant = None"
    by (metis (no_types))
  from a n b c d e a' b' c' e' show ?thesis by blast
qed

text \<open>
  C10. \<open>getDoubleDiscardCard\<close> returns either null or the very order it was given, never
  the order of another card.
\<close>

theorem getDoubleDiscardCard_null_or_argument:
  "getDoubleDiscardCard isHandLocked isCardNeedsToBePlayed getNumCopiesOfCard
       getNumDiscardedCopiesOfCard orderOfDiscardedCard gameState variant = None
   \<or> getDoubleDiscardCard isHandLocked isCardNeedsToBePlayed getNumCopiesOfCard
       getNumDiscardedCopiesOfCard orderOfDiscardedCard gameState variant
      = Some orderOfDiscardedCard"
  by (simp add: getDoubleDiscardCard_def Let_def split: option.splits)

theorem getDoubleDiscardCard_null_or_argument_witness:
  "getDoubleDiscardCard scenario_isHandLocked (\<lambda>s r dk ps pd pst v. True)
      scenario_getNumCopiesOfCard scenario_getNumDiscardedCopiesOfCard 7
      scenarioGame_doubleDiscard scenarioVariant = None
   \<or> getDoubleDiscardCard scenario_isHandLocked (\<lambda>s r dk ps pd pst v. True)
      scenario_getNumCopiesOfCard scenario_getNumDiscardedCopiesOfCard 7
      scenarioGame_doubleDiscard scenarioVariant = Some 7"
  by (rule getDoubleDiscardCard_null_or_argument)

end
